theory Spec2Isabelle
  imports Complex_Main
begin

section \<open>Tensors\<close>

text \<open>
  A torch tensor is a shape together with its entries. The images of \<^verbatim>\<open>piq/ms_ssim.py\<close> are
  4D tensors \<open>(N, C, H, W)\<close>; the per-level terms returned by the SSIM primitive are 2D tensors
  \<open>(N, C)\<close>; stacking the levels gives a 3D tensor \<open>(levels, N, C)\<close>. A tensor is modelled as a
  record of its dimensions and an index function; only the entries inside the dimensions are
  ever read. Entries are real numbers: the model is the exact arithmetic that the float32
  computation approximates, so it has no rounding, no NaN and no infinity. A 5D complex tensor
  \<open>(N, C, H, W, 2)\<close> is a 4D tensor of pairs (real part, imaginary part), and a 1D tensor is a
  list.
\<close>

record 'a tensor4 =
  dimN :: nat
  dimC :: nat
  dimH :: nat
  dimW :: nat
  elem :: "nat \<Rightarrow> nat \<Rightarrow> nat \<Rightarrow> nat \<Rightarrow> 'a"

record 'a tensor3 =
  dim0 :: nat
  dim1 :: nat
  dim2 :: nat
  elem3 :: "nat \<Rightarrow> nat \<Rightarrow> nat \<Rightarrow> 'a"

record 'a tensor2 =
  rows :: nat
  cols :: nat
  elem2 :: "nat \<Rightarrow> nat \<Rightarrow> 'a"

type_synonym tensor5 = "(real \<times> real) tensor4"

text \<open>
  The exceptions of the module. \<open>ValueError\<close> is the one raised by the size check of the two
  pyramid engines, \<open>KeyError\<close> the failed lookup in the reduction dictionary (with the key),
  \<open>TypeError\<close> what \<^verbatim>\<open>torch.stack\<close> raises on \<^verbatim>\<open>[None]\<close>, \<open>RuntimeError\<close> what the torch operations
  raise on shapes they cannot handle. A failure of a collaborator that lives outside this file
  (the validator, the SSIM primitives) is kept apart as \<open>Collaborator e\<close> and propagated.
\<close>

datatype 'e error = ValueError | KeyError string | TypeError | RuntimeError | Collaborator 'e

section \<open>Exceptions in sequence\<close>

text \<open>
  A statement after a call runs only if the call did not raise: \<open>and_then r f\<close> hands the value
  of \<open>r\<close> to \<open>f\<close>, or keeps the exception of \<open>r\<close>.
\<close>

definition and_then :: "'e + 'a \<Rightarrow> ('a \<Rightarrow> 'e + 'b) \<Rightarrow> 'e + 'b" where
  "and_then r f = (case r of Inl e \<Rightarrow> Inl e | Inr v \<Rightarrow> f v)"

section \<open>The torch operations the module calls\<close>

text \<open>
  \<^verbatim>\<open>F.pad(x, pad=[left, right, top, bottom], mode='replicate')\<close>: the last dimension grows by
  \<open>left + right\<close>, the one before by \<open>top + bottom\<close>, and an entry outside the old image takes
  the value of the nearest edge pixel. Replication needs a non-empty image.
\<close>

definition replicate_index :: "nat \<Rightarrow> nat \<Rightarrow> nat \<Rightarrow> nat" where
  "replicate_index before n i = (if i < before then 0 else min (i - before) (n - 1))"

definition pad_replicate :: "nat \<Rightarrow> nat \<Rightarrow> nat \<Rightarrow> nat \<Rightarrow> 'a tensor4 \<Rightarrow> 'a tensor4" where
  "pad_replicate pad_left pad_right pad_top pad_bottom x =
     \<lparr>dimN = dimN x, dimC = dimC x,
      dimH = dimH x + pad_top + pad_bottom, dimW = dimW x + pad_left + pad_right,
      elem = (\<lambda>n c i j. elem x n c (replicate_index pad_top (dimH x) i)
                                    (replicate_index pad_left (dimW x) j))\<rparr>"

definition F_pad :: "'a tensor4 \<Rightarrow> nat \<Rightarrow> nat \<Rightarrow> nat \<Rightarrow> nat \<Rightarrow> 'e error + 'a tensor4" where
  "F_pad x pad_left pad_right pad_top pad_bottom =
     (if dimH x = 0 \<or> dimW x = 0 then Inl RuntimeError
      else Inr (pad_replicate pad_left pad_right pad_top pad_bottom x))"

text \<open>
  \<^verbatim>\<open>F.avg_pool2d(x, kernel_size=2, padding=0)\<close>: the stride defaults to the kernel size, the
  output has \<open>\<lfloor>(H - 2) / 2\<rfloor> + 1\<close> rows (and columns alike), each entry the mean of a 2x2
  block; torch refuses an output without rows or columns.
\<close>

definition pool2 :: "real tensor4 \<Rightarrow> real tensor4" where
  "pool2 x =
     \<lparr>dimN = dimN x, dimC = dimC x, dimH = dimH x div 2, dimW = dimW x div 2,
      elem = (\<lambda>n c i j. (elem x n c (2 * i) (2 * j) + elem x n c (2 * i) (2 * j + 1)
                         + elem x n c (2 * i + 1) (2 * j) + elem x n c (2 * i + 1) (2 * j + 1)) / 4)\<rparr>"

definition avg_pool2d :: "real tensor4 \<Rightarrow> 'e error + real tensor4" where
  "avg_pool2d x =
     (if dimH x div 2 = 0 \<or> dimW x div 2 = 0 then Inl RuntimeError else Inr (pool2 x))"

text \<open>
  \<^verbatim>\<open>torch.stack(ts, dim=0)\<close> needs a non-empty list of tensors of one shape.
\<close>

definition torch_stack :: "'a tensor2 list \<Rightarrow> 'e error + 'a tensor3" where
  "torch_stack ts =
     (case ts of
        [] \<Rightarrow> Inl RuntimeError
      | t # _ \<Rightarrow>
          if list_all (\<lambda>u. rows u = rows t \<and> cols u = cols t) ts
          then Inr \<lparr>dim0 = length ts, dim1 = rows t, dim2 = cols t,
                    elem3 = (\<lambda>l n c. elem2 (ts ! l) n c)\<rparr>
          else Inl RuntimeError)"

text \<open>\<^verbatim>\<open>torch.relu\<close> on a real tensor, entry by entry.\<close>

definition relu :: "real \<Rightarrow> real" where
  "relu v = max 0 v"

definition torch_relu :: "real tensor3 \<Rightarrow> real tensor3" where
  "torch_relu t = \<lparr>dim0 = dim0 t, dim1 = dim1 t, dim2 = dim2 t,
                   elem3 = (\<lambda>l n c. relu (elem3 t l n c))\<rparr>"

text \<open>
  The power \<^verbatim>\<open>b ** w\<close> of two floats, for a base that is not negative (the bases of this module
  have been through \<^verbatim>\<open>relu\<close>): \<open>0 ** 0 = 1\<close>, \<open>0 ** w = 0\<close> for \<open>w > 0\<close>, and the real power
  otherwise. Torch gives infinity for \<open>0 ** w\<close> with \<open>w < 0\<close> and NaN for a negative base with a
  fractional exponent; these have no real value, and the theorems that depend on the value of
  a power assume weights that are not negative.
\<close>

definition float_pow :: "real \<Rightarrow> real \<Rightarrow> real" where
  "float_pow b w = (if b = 0 then (if w = 0 then 1 else 0) else b powr w)"

text \<open>
  \<^verbatim>\<open>t ** scale_weights_tensor.view(-1, 1, 1)\<close>: level \<open>l\<close> of \<open>t\<close> is raised to weight \<open>l\<close>. Both
  have \<open>levels\<close> entries along dimension 0 wherever the module calls it.
\<close>

definition pow_view :: "real tensor3 \<Rightarrow> real list \<Rightarrow> real tensor3" where
  "pow_view t ws = \<lparr>dim0 = dim0 t, dim1 = dim1 t, dim2 = dim2 t,
                    elem3 = (\<lambda>l n c. float_pow (elem3 t l n c) (ws ! l))\<rparr>"

text \<open>\<^verbatim>\<open>torch.prod(t, dim=0)\<close>, \<^verbatim>\<open>torch.sum(t, dim=0)\<close> and \<^verbatim>\<open>t.mean(1)\<close>.\<close>

definition prod_dim0 :: "real tensor3 \<Rightarrow> real tensor2" where
  "prod_dim0 t = \<lparr>rows = dim1 t, cols = dim2 t,
                  elem2 = (\<lambda>n c. prod_list (map (\<lambda>l. elem3 t l n c) [0..<dim0 t]))\<rparr>"

definition sum_dim0 :: "real tensor3 \<Rightarrow> real tensor2" where
  "sum_dim0 t = \<lparr>rows = dim1 t, cols = dim2 t,
                 elem2 = (\<lambda>n c. sum_list (map (\<lambda>l. elem3 t l n c) [0..<dim0 t]))\<rparr>"

definition mean_dim1 :: "real tensor2 \<Rightarrow> real list" where
  "mean_dim1 t = map (\<lambda>n. sum_list (map (\<lambda>c. elem2 t n c) [0..<cols t]) / real (cols t))
                     [0..<rows t]"

section \<open>The real pyramid engine\<close>

text \<open>
  \<^verbatim>\<open>_ssim_per_channel\<close> is imported from \<^verbatim>\<open>piq.ssim\<close> and is a parameter of the model: called
  with \<open>x\<close>, \<open>y\<close>, the kernel, the data range, \<open>k1\<close> and \<open>k2\<close>, it fails or returns the pair
  \<open>(ssim_val, cs)\<close>.
\<close>

type_synonym 'e ssim_fn =
  "real tensor4 \<Rightarrow> real tensor4 \<Rightarrow> real tensor4 \<Rightarrow> real \<Rightarrow> real \<Rightarrow> real
     \<Rightarrow> 'e + (real tensor2 \<times> real tensor2)"

text \<open>
  \<^verbatim>\<open>min_size = (kernel.size(-1) - 1) * 2 ** (levels - 1) + 1\<close>. Python's \<^verbatim>\<open>2 ** (levels - 1)\<close> is
  the float \<open>0.5\<close> when \<open>levels = 0\<close>, so the value is a real number.
\<close>

definition min_size :: "real tensor4 \<Rightarrow> nat \<Rightarrow> real" where
  "min_size kern levels =
     (real (dimW kern) - 1) * power_int 2 (int levels - 1) + 1"

text \<open>
  Lines 231-236: the padding is computed from the shape of \<open>x\<close> and used for \<open>x\<close> and \<open>y\<close>
  alike; both are padded on the left and on the top, then both are pooled.
\<close>

definition padding :: "'a tensor4 \<Rightarrow> nat" where
  "padding x = max (dimH x mod 2) (dimW x mod 2)"

definition downsample_pair ::
  "real tensor4 \<Rightarrow> real tensor4 \<Rightarrow> 'e error + (real tensor4 \<times> real tensor4)" where
  "downsample_pair x y =
     (let p = padding x in
      and_then (F_pad x p 0 p 0) (\<lambda>x1.
      and_then (F_pad y p 0 p 0) (\<lambda>y1.
      and_then (avg_pool2d x1) (\<lambda>x2.
      and_then (avg_pool2d y1) (\<lambda>y2.
      Inr (x2, y2))))))"

text \<open>
  The loop of lines 228-239 over \<^verbatim>\<open>range(levels)\<close>. Its state is \<open>(x, y, mcs, ssim_val)\<close>; a
  failure of the SSIM primitive ends it.
\<close>

type_synonym loop_state =
  "real tensor4 \<times> real tensor4 \<times> real tensor2 list \<times> real tensor2 option"

fun pyramid_loop ::
  "'e ssim_fn \<Rightarrow> real \<Rightarrow> real tensor4 \<Rightarrow> real \<Rightarrow> real \<Rightarrow> nat list \<Rightarrow> loop_state
     \<Rightarrow> 'e error + loop_state" where
  "pyramid_loop ssim_per_channel data_range kern k1 k2 [] st = Inr st"
| "pyramid_loop ssim_per_channel data_range kern k1 k2 (iteration # rest) (x, y, mcs, ssim_val) =
     and_then (if iteration > 0 then downsample_pair x y else Inr (x, y)) (\<lambda>(x', y').
       (case ssim_per_channel x' y' kern data_range k1 k2 of
          Inl e \<Rightarrow> Inl (Collaborator e)
        | Inr (ssim_val', cs) \<Rightarrow>
            pyramid_loop ssim_per_channel data_range kern k1 k2 rest
              (x', y', mcs @ [cs], Some ssim_val')))"

text \<open>
  Lines 241-245: \<^verbatim>\<open>mcs[:-1] + [ssim_val]\<close> is stacked, rectified, raised to the weights,
  multiplied over the levels and averaged over the channels. After a loop that never ran
  \<open>ssim_val\<close> is still \<^verbatim>\<open>None\<close>, which \<^verbatim>\<open>torch.stack\<close> refuses.
\<close>

definition combine :: "real tensor2 list \<Rightarrow> real tensor2 option \<Rightarrow> real list
     \<Rightarrow> 'e error + real list" where
  "combine mcs ssim_val scale_weights_tensor =
     (case ssim_val of
        None \<Rightarrow> Inl TypeError
      | Some sv \<Rightarrow>
          and_then (torch_stack (butlast mcs @ [sv])) (\<lambda>stacked.
            Inr (mean_dim1 (prod_dim0 (pow_view (torch_relu stacked) scale_weights_tensor)))))"

definition priv_multi_scale_ssim ::
  "'e ssim_fn \<Rightarrow> real tensor4 \<Rightarrow> real tensor4 \<Rightarrow> real \<Rightarrow> real tensor4 \<Rightarrow> real list
     \<Rightarrow> real \<Rightarrow> real \<Rightarrow> 'e error + real list" where
  "priv_multi_scale_ssim ssim_per_channel x y data_range kern scale_weights_tensor k1 k2 =
     (let levels = length scale_weights_tensor in
      if real (dimW x) < min_size kern levels \<or> real (dimH x) < min_size kern levels
      then Inl ValueError
      else and_then (pyramid_loop ssim_per_channel data_range kern k1 k2 [0..<levels]
                       (x, y, [], None)) (\<lambda>(x', y', mcs, ssim_val).
             combine mcs ssim_val scale_weights_tensor))"

section \<open>The complex pyramid engine\<close>

text \<open>
  \<^verbatim>\<open>x[..., 0]\<close> and \<^verbatim>\<open>x[..., 1]\<close> are the real and the imaginary part of a 5D tensor, and
  \<^verbatim>\<open>torch.stack((a, b), dim=-1)\<close> puts two parts of one shape together again.
\<close>

definition select_last :: "nat \<Rightarrow> tensor5 \<Rightarrow> real tensor4" where
  "select_last k x =
     \<lparr>dimN = dimN x, dimC = dimC x, dimH = dimH x, dimW = dimW x,
      elem = (\<lambda>n c i j. if k = 0 then fst (elem x n c i j) else snd (elem x n c i j))\<rparr>"

definition stack_last :: "real tensor4 \<Rightarrow> real tensor4 \<Rightarrow> 'e error + tensor5" where
  "stack_last a b =
     (if dimN a = dimN b \<and> dimC a = dimC b \<and> dimH a = dimH b \<and> dimW a = dimW b
      then Inr \<lparr>dimN = dimN a, dimC = dimC a, dimH = dimH a, dimW = dimW a,
                elem = (\<lambda>n c i j. (elem a n c i j, elem b n c i j))\<rparr>
      else Inl RuntimeError)"

text \<open>
  \<^verbatim>\<open>_ssim_per_channel_complex\<close> is imported from \<^verbatim>\<open>piq.ssim\<close> and is a parameter as well; its
  results have the shape \<open>(N, C, 2)\<close>.
\<close>

type_synonym 'e ssim_fn_complex =
  "tensor5 \<Rightarrow> tensor5 \<Rightarrow> real tensor4 \<Rightarrow> real \<Rightarrow> real \<Rightarrow> real
     \<Rightarrow> 'e + ((real \<times> real) tensor2 \<times> (real \<times> real) tensor2)"

text \<open>Lines 274-290: the four parts are padded, then pooled, then put together.\<close>

definition downsample_pair_complex :: "tensor5 \<Rightarrow> tensor5 \<Rightarrow> 'e error + (tensor5 \<times> tensor5)" where
  "downsample_pair_complex x y =
     (let x_real = select_last 0 x; x_imag = select_last 1 x;
          y_real = select_last 0 y; y_imag = select_last 1 y;
          p = padding x in
      and_then (F_pad x_real p 0 p 0) (\<lambda>x_real1.
      and_then (F_pad x_imag p 0 p 0) (\<lambda>x_imag1.
      and_then (F_pad y_real p 0 p 0) (\<lambda>y_real1.
      and_then (F_pad y_imag p 0 p 0) (\<lambda>y_imag1.
      and_then (avg_pool2d x_real1) (\<lambda>x_real2.
      and_then (avg_pool2d x_imag1) (\<lambda>x_imag2.
      and_then (avg_pool2d y_real1) (\<lambda>y_real2.
      and_then (avg_pool2d y_imag1) (\<lambda>y_imag2.
      and_then (stack_last x_real2 x_imag2) (\<lambda>x'.
      and_then (stack_last y_real2 y_imag2) (\<lambda>y'.
      Inr (x', y'))))))))))))"

type_synonym loop_state_complex =
  "tensor5 \<times> tensor5 \<times> (real \<times> real) tensor2 list \<times> (real \<times> real) tensor2 option"

fun pyramid_loop_complex ::
  "'e ssim_fn_complex \<Rightarrow> real \<Rightarrow> real tensor4 \<Rightarrow> real \<Rightarrow> real \<Rightarrow> nat list
     \<Rightarrow> loop_state_complex \<Rightarrow> 'e error + loop_state_complex" where
  "pyramid_loop_complex ssim_per_channel_complex data_range kern k1 k2 [] st = Inr st"
| "pyramid_loop_complex ssim_per_channel_complex data_range kern k1 k2 (iteration # rest)
       (x, y, mcs, ssim_val) =
     and_then (if iteration > 0 then downsample_pair_complex x y else Inr (x, y)) (\<lambda>(x', y').
       (case ssim_per_channel_complex x' y' kern data_range k1 k2 of
          Inl e \<Rightarrow> Inl (Collaborator e)
        | Inr (ssim_val', cs) \<Rightarrow>
            pyramid_loop_complex ssim_per_channel_complex data_range kern k1 k2 rest
              (x', y', mcs @ [cs], Some ssim_val')))"

text \<open>
  Line 296: \<^verbatim>\<open>torch.relu\<close> on the stacked \<open>(levels, N, C, 2)\<close> tensor rectifies every entry, so
  the real and the imaginary part each on its own.
\<close>

definition torch_relu_complex :: "(real \<times> real) tensor3 \<Rightarrow> (real \<times> real) tensor3" where
  "torch_relu_complex t =
     \<lparr>dim0 = dim0 t, dim1 = dim1 t, dim2 = dim2 t,
      elem3 = (\<lambda>l n c. (relu (fst (elem3 t l n c)), relu (snd (elem3 t l n c))))\<rparr>"

text \<open>
  \<^verbatim>\<open>torch.atan2(imag, real)\<close>: the angle of the point \<open>(real, imag)\<close> in \<open>(-pi, pi]\<close>, and \<open>0\<close> at the
  origin.
\<close>

definition torch_atan2 :: "real \<Rightarrow> real \<Rightarrow> real" where
  "torch_atan2 im re =
     (if re > 0 then arctan (im / re)
      else if re < 0 then (if im \<ge> 0 then arctan (im / re) + pi else arctan (im / re) - pi)
      else if im > 0 then pi / 2
      else if im < 0 then - (pi / 2)
      else 0)"

text \<open>Lines 298-301: magnitude and phase of every rectified term.\<close>

definition mcs_ssim_abs :: "(real \<times> real) tensor3 \<Rightarrow> real tensor3" where
  "mcs_ssim_abs mcs_ssim =
     \<lparr>dim0 = dim0 mcs_ssim, dim1 = dim1 mcs_ssim, dim2 = dim2 mcs_ssim,
      elem3 = (\<lambda>l n c. sqrt ((fst (elem3 mcs_ssim l n c))\<^sup>2 + (snd (elem3 mcs_ssim l n c))\<^sup>2))\<rparr>"

definition mcs_ssim_deg :: "(real \<times> real) tensor3 \<Rightarrow> real tensor3" where
  "mcs_ssim_deg mcs_ssim =
     \<lparr>dim0 = dim0 mcs_ssim, dim1 = dim1 mcs_ssim, dim2 = dim2 mcs_ssim,
      elem3 = (\<lambda>l n c. torch_atan2 (snd (elem3 mcs_ssim l n c)) (fst (elem3 mcs_ssim l n c)))\<rparr>"

text \<open>\<^verbatim>\<open>t * scale_weights_tensor.view(-1, 1, 1)\<close>.\<close>

definition mul_view :: "real tensor3 \<Rightarrow> real list \<Rightarrow> real tensor3" where
  "mul_view t ws = \<lparr>dim0 = dim0 t, dim1 = dim1 t, dim2 = dim2 t,
                    elem3 = (\<lambda>l n c. elem3 t l n c * ws ! l)\<rparr>"

text \<open>Lines 303-307: the magnitude and the phase of the product over the levels.\<close>

definition msssim_val_abs :: "(real \<times> real) tensor3 \<Rightarrow> real list \<Rightarrow> real tensor2" where
  "msssim_val_abs mcs_ssim scale_weights_tensor =
     prod_dim0 (pow_view (mcs_ssim_abs mcs_ssim) scale_weights_tensor)"

definition msssim_val_deg :: "(real \<times> real) tensor3 \<Rightarrow> real list \<Rightarrow> real tensor2" where
  "msssim_val_deg mcs_ssim scale_weights_tensor =
     sum_dim0 (mul_view (mcs_ssim_deg mcs_ssim) scale_weights_tensor)"

text \<open>
  Lines 308-310: back to real and imaginary part, stacked along a last dimension and averaged
  over the channels; the result has the shape \<open>(N, 2)\<close>.
\<close>

definition polar_mean :: "real tensor2 \<Rightarrow> real tensor2 \<Rightarrow> (real \<times> real) list" where
  "polar_mean val_abs val_deg =
     map (\<lambda>n. (sum_list (map (\<lambda>c. elem2 val_abs n c * cos (elem2 val_deg n c)) [0..<cols val_abs])
                 / real (cols val_abs),
               sum_list (map (\<lambda>c. elem2 val_abs n c * sin (elem2 val_deg n c)) [0..<cols val_abs])
                 / real (cols val_abs)))
         [0..<rows val_abs]"

definition combine_complex ::
  "(real \<times> real) tensor2 list \<Rightarrow> (real \<times> real) tensor2 option \<Rightarrow> real list
     \<Rightarrow> 'e error + (real \<times> real) list" where
  "combine_complex mcs ssim_val scale_weights_tensor =
     (case ssim_val of
        None \<Rightarrow> Inl TypeError
      | Some sv \<Rightarrow>
          and_then (torch_stack (butlast mcs @ [sv])) (\<lambda>stacked.
            (let mcs_ssim = torch_relu_complex stacked in
             Inr (polar_mean (msssim_val_abs mcs_ssim scale_weights_tensor)
                             (msssim_val_deg mcs_ssim scale_weights_tensor)))))"

definition priv_multi_scale_ssim_complex ::
  "'e ssim_fn_complex \<Rightarrow> tensor5 \<Rightarrow> tensor5 \<Rightarrow> real \<Rightarrow> real tensor4 \<Rightarrow> real list
     \<Rightarrow> real \<Rightarrow> real \<Rightarrow> 'e error + (real \<times> real) list" where
  "priv_multi_scale_ssim_complex ssim_per_channel_complex x y data_range kern
       scale_weights_tensor k1 k2 =
     (let levels = length scale_weights_tensor in
      if real (dimW x) < min_size kern levels \<or> real (dimH x) < min_size kern levels
      then Inl ValueError
      else and_then (pyramid_loop_complex ssim_per_channel_complex data_range kern k1 k2
                       [0..<levels] (x, y, [], None)) (\<lambda>(x', y', mcs, ssim_val).
             combine_complex mcs ssim_val scale_weights_tensor))"

section \<open>The public metric function\<close>

text \<open>
  The collaborators that \<^verbatim>\<open>multi_scale_ssim\<close> imports from other files of the package are
  parameters of the model, with the arguments the calls of this file give them:
  \<^item> \<^verbatim>\<open>_validate_input\<close> gets the two inputs, \<^verbatim>\<open>allow_5d\<close>, the kernel size, the scale weights and
    the data range, and raises or returns nothing. It is not given the reduction.
  \<^item> \<^verbatim>\<open>_adjust_dimensions\<close> turns the two inputs into 4D tensors, or into 5D tensors.
  \<^item> \<^verbatim>\<open>gaussian_filter\<close> makes the kernel from its size and sigma.
  \<^item> the two SSIM primitives.
  The inputs as the caller hands them over (2D to 5D) have the type \<open>'raw\<close>.
\<close>

record ('raw, 'e) collaborators =
  validate_input :: "'raw \<Rightarrow> 'raw \<Rightarrow> bool \<Rightarrow> int \<Rightarrow> real list option \<Rightarrow> real \<Rightarrow> 'e option"
  adjust_dimensions :: "'raw \<Rightarrow> 'raw \<Rightarrow> (real tensor4 \<times> real tensor4) + (tensor5 \<times> tensor5)"
  gaussian_filter :: "int \<Rightarrow> real \<Rightarrow> real tensor3"
  ssim_per_channel :: "'e ssim_fn"
  ssim_per_channel_complex :: "'e ssim_fn_complex"

text \<open>
  What the function returns: a tensor of shape \<open>(N)\<close> or \<open>(N, 2)\<close> without reduction, a scalar or
  a tensor of shape \<open>(2)\<close> with it.
\<close>

datatype score = Shape_N "real list" | Shape_N2 "(real \<times> real) list"
  | Shape_scalar real | Shape_2 "real \<times> real"

definition scale_weights_from_ms_ssim_paper :: "real list" where
  "scale_weights_from_ms_ssim_paper = [0.0448, 0.2856, 0.3001, 0.2363, 0.1333]"

text \<open>\<^verbatim>\<open>x / data_range\<close>, for a real and for a complex tensor.\<close>

definition div_scalar :: "real tensor4 \<Rightarrow> real \<Rightarrow> real tensor4" where
  "div_scalar x d =
     \<lparr>dimN = dimN x, dimC = dimC x, dimH = dimH x, dimW = dimW x,
      elem = (\<lambda>n c i j. elem x n c i j / d)\<rparr>"

definition div_scalar_complex :: "tensor5 \<Rightarrow> real \<Rightarrow> tensor5" where
  "div_scalar_complex x d =
     \<lparr>dimN = dimN x, dimC = dimC x, dimH = dimH x, dimW = dimW x,
      elem = (\<lambda>n c i j. (fst (elem x n c i j) / d, snd (elem x n c i j) / d))\<rparr>"

text \<open>\<^verbatim>\<open>g.repeat(n, 1, 1, 1)\<close> of a 3D tensor: \<open>n\<close> copies along a new first dimension.\<close>

definition repeat_first :: "real tensor3 \<Rightarrow> nat \<Rightarrow> real tensor4" where
  "repeat_first g n =
     \<lparr>dimN = n, dimC = dim0 g, dimH = dim1 g, dimW = dim2 g,
      elem = (\<lambda>_ c i j. elem3 g c i j)\<rparr>"

text \<open>\<^verbatim>\<open>torch.mean(v, dim=0)\<close> and \<^verbatim>\<open>torch.sum(v, dim=0)\<close>.\<close>

fun torch_mean :: "score \<Rightarrow> score" where
  "torch_mean (Shape_N v) = Shape_scalar (sum_list v / real (length v))"
| "torch_mean (Shape_N2 v) =
     Shape_2 (sum_list (map fst v) / real (length v), sum_list (map snd v) / real (length v))"
| "torch_mean (Shape_scalar s) = Shape_scalar s"
| "torch_mean (Shape_2 (a, b)) = Shape_scalar ((a + b) / 2)"

fun torch_sum :: "score \<Rightarrow> score" where
  "torch_sum (Shape_N v) = Shape_scalar (sum_list v)"
| "torch_sum (Shape_N2 v) = Shape_2 (sum_list (map fst v), sum_list (map snd v))"
| "torch_sum (Shape_scalar s) = Shape_scalar s"
| "torch_sum (Shape_2 (a, b)) = Shape_scalar (a + b)"

text \<open>
  Lines 91-95: without reduction the value is returned; otherwise the reduction is looked up
  in the dictionary \<^verbatim>\<open>{'mean': torch.mean, 'sum': torch.sum}\<close>, and a missing key raises
  \<^verbatim>\<open>KeyError\<close>.
\<close>

definition reduce :: "string \<Rightarrow> score \<Rightarrow> 'e error + score" where
  "reduce reduction msssim_val =
     (if reduction = ''none'' then Inr msssim_val
      else (case map_of [(''mean'', torch_mean), (''sum'', torch_sum)] reduction of
              None \<Rightarrow> Inl (KeyError reduction)
            | Some f \<Rightarrow> Inr (f msssim_val)))"

definition multi_scale_ssim ::
  "('raw, 'e) collaborators \<Rightarrow> 'raw \<Rightarrow> 'raw \<Rightarrow> int \<Rightarrow> real \<Rightarrow> real \<Rightarrow> string
     \<Rightarrow> real list option \<Rightarrow> real \<Rightarrow> real \<Rightarrow> 'e error + score" where
  "multi_scale_ssim env x y kernel_size kernel_sigma data_range reduction scale_weights k1 k2 =
     (case validate_input env x y True kernel_size scale_weights data_range of
        Some e \<Rightarrow> Inl (Collaborator e)
      | None \<Rightarrow>
          (let scale_weights_tensor =
                 (case scale_weights of
                    None \<Rightarrow> scale_weights_from_ms_ssim_paper
                  | Some w \<Rightarrow> w)
           in and_then
                (case adjust_dimensions env x y of
                   Inl (x4, y4) \<Rightarrow>
                     (let x' = div_scalar x4 data_range; y' = div_scalar y4 data_range;
                          kern = repeat_first (gaussian_filter env kernel_size kernel_sigma) (dimC x')
                      in and_then
                           (priv_multi_scale_ssim (ssim_per_channel env) x' y' data_range kern
                              scale_weights_tensor k1 k2)
                           (\<lambda>v. Inr (Shape_N v)))
                 | Inr (x5, y5) \<Rightarrow>
                     (let x' = div_scalar_complex x5 data_range;
                          y' = div_scalar_complex y5 data_range;
                          kern = repeat_first (gaussian_filter env kernel_size kernel_sigma) (dimC x')
                      in and_then
                           (priv_multi_scale_ssim_complex (ssim_per_channel_complex env) x' y'
                              data_range kern scale_weights_tensor k1 k2)
                           (\<lambda>v. Inr (Shape_N2 v))))
                (\<lambda>msssim_val. reduce reduction msssim_val)))"

section \<open>The loss wrapper\<close>





section \<open>The pyramid in closed form\<close>

text \<open>
  One step down the pyramid for an image that is not empty: padded by \<open>p\<close> on the top and on
  the left, then pooled. \<open>pyramid_level l (x, y)\<close> is the pair of images that iteration \<open>l\<close> of
  the loop hands to the SSIM primitive.
\<close>

definition next_level :: "nat \<Rightarrow> real tensor4 \<Rightarrow> real tensor4" where
  "next_level p x = pool2 (pad_replicate p 0 p 0 x)"

primrec pyramid_level :: "nat \<Rightarrow> real tensor4 \<times> real tensor4 \<Rightarrow> real tensor4 \<times> real tensor4" where
  "pyramid_level 0 xy = xy"
| "pyramid_level (Suc l) xy =
     (let x = fst (pyramid_level l xy); y = snd (pyramid_level l xy)
      in (next_level (padding x) x, next_level (padding x) y))"

text \<open>
  The inputs the engines are written for: at least one level, and two images of one shape
  that are not empty and hold at least one channel.
\<close>

definition valid_inputs :: "real list \<Rightarrow> 'a tensor4 \<Rightarrow> 'a tensor4 \<Rightarrow> bool" where
  "valid_inputs scale_weights_tensor x y =
     (scale_weights_tensor \<noteq> [] \<and>
      0 < dimC x \<and> 0 < dimH x \<and> 0 < dimW x \<and>
      dimN y = dimN x \<and> dimC y = dimC x \<and> dimH y = dimH x \<and> dimW y = dimW x)"

text \<open>
  The SSIM primitive returns, at every level \<open>l\<close> of the pyramid, the SSIM values \<open>ssim_at l\<close>
  and the contrast terms \<open>cs_at l\<close>, each of shape \<open>(N, C)\<close>.
\<close>

definition level_outputs ::
  "'e ssim_fn \<Rightarrow> real tensor4 \<Rightarrow> real tensor4 \<Rightarrow> real \<Rightarrow> real tensor4 \<Rightarrow> nat \<Rightarrow> real \<Rightarrow> real
     \<Rightarrow> (nat \<Rightarrow> real tensor2) \<Rightarrow> (nat \<Rightarrow> real tensor2) \<Rightarrow> bool" where
  "level_outputs prim x y data_range kern levels k1 k2 ssim_at cs_at =
     list_all (\<lambda>l. prim (fst (pyramid_level l (x, y))) (snd (pyramid_level l (x, y)))
                      kern data_range k1 k2 = Inr (ssim_at l, cs_at l)
                  \<and> rows (ssim_at l) = dimN x \<and> cols (ssim_at l) = dimC x
                  \<and> rows (cs_at l) = dimN x \<and> cols (cs_at l) = dimC x)
              [0..<levels]"

text \<open>
  The combination in the words of the specification: the terms of the levels
  \<open>0 .. levels - 2\<close> are the contrast terms, the term of level \<open>levels - 1\<close> is the SSIM value;
  each is clamped at zero and raised to the weight of its level; the powers are multiplied
  over the levels and the products averaged over the channels, one score per batch item.
\<close>

definition level_term ::
  "nat \<Rightarrow> (nat \<Rightarrow> real tensor2) \<Rightarrow> (nat \<Rightarrow> real tensor2) \<Rightarrow> nat \<Rightarrow> nat \<Rightarrow> nat \<Rightarrow> real" where
  "level_term levels ssim_at cs_at l n c =
     (if l < levels - 1 then elem2 (cs_at l) n c else elem2 (ssim_at l) n c)"

definition msssim_spec ::
  "nat \<Rightarrow> nat \<Rightarrow> (nat \<Rightarrow> real tensor2) \<Rightarrow> (nat \<Rightarrow> real tensor2) \<Rightarrow> real list \<Rightarrow> real list" where
  "msssim_spec N C ssim_at cs_at weights =
     map (\<lambda>n. (\<Sum>c\<leftarrow>[0..<C]. \<Prod>l\<leftarrow>[0..<length weights].
                   float_pow (max 0 (level_term (length weights) ssim_at cs_at l n c)) (weights ! l))
               / real C)
         [0..<N]"

section \<open>What is taken from the SSIM primitives\<close>



text \<open>
  The 5D tensor of a real image: every imaginary part is zero. Likewise for the \<open>(N, C)\<close>
  results.
\<close>

definition to_complex :: "real tensor4 \<Rightarrow> tensor5" where
  "to_complex x =
     \<lparr>dimN = dimN x, dimC = dimC x, dimH = dimH x, dimW = dimW x,
      elem = (\<lambda>n c i j. (elem x n c i j, 0))\<rparr>"

definition to_complex2 :: "real tensor2 \<Rightarrow> (real \<times> real) tensor2" where
  "to_complex2 t = \<lparr>rows = rows t, cols = cols t, elem2 = (\<lambda>n c. (elem2 t n c, 0))\<rparr>"

text \<open>The imaginary part of such a tensor: zeros in the shape of \<open>x\<close>.\<close>

definition zeros_like :: "real tensor4 \<Rightarrow> real tensor4" where
  "zeros_like x = \<lparr>dimN = dimN x, dimC = dimC x, dimH = dimH x, dimW = dimW x,
                   elem = (\<lambda>_ _ _ _. 0)\<rparr>"


section \<open>Concrete collaborators and inputs\<close>

text \<open>
  To run the model on concrete inputs the parameters need values. These stand-ins have the
  interfaces of the collaborators and nothing more: the SSIM stand-ins compare the top left
  pixels of each channel, the kernel stand-in is a box filter, the validator accepts an odd
  kernel size, and the inputs are 4D or 5D already. \<open>full\<close> is \<^verbatim>\<open>torch.full\<close>.
\<close>

definition full :: "nat \<Rightarrow> nat \<Rightarrow> nat \<Rightarrow> nat \<Rightarrow> 'a \<Rightarrow> 'a tensor4" where
  "full N C H W v = \<lparr>dimN = N, dimC = C, dimH = H, dimW = W, elem = (\<lambda>_ _ _ _. v)\<rparr>"

definition example_ssim_per_channel :: "string ssim_fn" where
  "example_ssim_per_channel x y kern data_range k1 k2 =
     (if dimH x < dimH kern \<or> dimW x < dimW kern then Inl ''kernel larger than input''
      else Inr
        (\<lparr>rows = dimN x, cols = dimC x,
          elem2 = (\<lambda>n c. (2 * elem x n c 0 0 * elem y n c 0 0 + 2)
                            / ((elem x n c 0 0)\<^sup>2 + (elem y n c 0 0)\<^sup>2 + 2)
                          * ((2 * elem x n c 0 0 * elem y n c 0 0 + 1)
                            / ((elem x n c 0 0)\<^sup>2 + (elem y n c 0 0)\<^sup>2 + 1)))\<rparr>,
         \<lparr>rows = dimN x, cols = dimC x,
          elem2 = (\<lambda>n c. (2 * elem x n c 0 0 * elem y n c 0 0 + 1)
                            / ((elem x n c 0 0)\<^sup>2 + (elem y n c 0 0)\<^sup>2 + 1))\<rparr>))"

definition example_ratio :: "real \<times> real \<Rightarrow> real \<times> real \<Rightarrow> real \<Rightarrow> real \<times> real" where
  "example_ratio a b k =
     ((2 * (fst a * fst b - snd a * snd b) + k)
        / ((fst a)\<^sup>2 + (snd a)\<^sup>2 + (fst b)\<^sup>2 + (snd b)\<^sup>2 + k),
      2 * (fst a * snd b + snd a * fst b)
        / ((fst a)\<^sup>2 + (snd a)\<^sup>2 + (fst b)\<^sup>2 + (snd b)\<^sup>2 + k))"

definition example_ssim_per_channel_complex :: "string ssim_fn_complex" where
  "example_ssim_per_channel_complex x y kern data_range k1 k2 =
     (if dimH x < dimH kern \<or> dimW x < dimW kern then Inl ''kernel larger than input''
      else Inr
        (\<lparr>rows = dimN x, cols = dimC x,
          elem2 = (\<lambda>n c. (fst (example_ratio (elem x n c 0 0) (elem y n c 0 0) 2)
                            * fst (example_ratio (elem x n c 0 0) (elem y n c 0 0) 1),
                          snd (example_ratio (elem x n c 0 0) (elem y n c 0 0) 2)
                            * snd (example_ratio (elem x n c 0 0) (elem y n c 0 0) 1)))\<rparr>,
         \<lparr>rows = dimN x, cols = dimC x,
          elem2 = (\<lambda>n c. example_ratio (elem x n c 0 0) (elem y n c 0 0) 1)\<rparr>))"

definition box_kernel :: "int \<Rightarrow> real \<Rightarrow> real tensor3" where
  "box_kernel kernel_size kernel_sigma =
     \<lparr>dim0 = 1, dim1 = nat kernel_size, dim2 = nat kernel_size,
      elem3 = (\<lambda>_ _ _. 1 / (real_of_int kernel_size)\<^sup>2)\<rparr>"

definition example_env :: "(real tensor4 + tensor5, string) collaborators" where
  "example_env =
     \<lparr>validate_input = (\<lambda>x y allow_5d kernel_size scale_weights data_range.
         if kernel_size mod 2 \<noteq> 1 then Some ''kernel size must be odd''
         else if isl x \<noteq> isl y then Some ''inputs must have the same shape''
         else None),
      adjust_dimensions = (\<lambda>x y.
         case (x, y) of
           (Inl x4, Inl y4) \<Rightarrow> Inl (x4, y4)
         | (Inl x4, Inr y5) \<Rightarrow> Inl (x4, select_last 0 y5)
         | (Inr x5, Inl y4) \<Rightarrow> Inr (x5, to_complex y4)
         | (Inr x5, Inr y5) \<Rightarrow> Inr (x5, y5)),
      gaussian_filter = box_kernel,
      ssim_per_channel = example_ssim_per_channel,
      ssim_per_channel_complex = example_ssim_per_channel_complex\<rparr>"

text \<open>A batch of two 1x1 images with one channel: the pixel of item \<open>n\<close> is \<open>n + 1\<close>.\<close>

definition example_batch :: "real tensor4" where
  "example_batch = \<lparr>dimN = 2, dimC = 1, dimH = 1, dimW = 1, elem = (\<lambda>n _ _ _. real n + 1)\<rparr>"

text \<open>An \<open>(N, C) = (1, 1)\<close> result that holds the value \<open>v\<close>.\<close>

definition constant_output :: "real \<Rightarrow> real tensor2" where
  "constant_output v = \<lparr>rows = 1, cols = 1, elem2 = (\<lambda>_ _. v)\<rparr>"

text \<open>
  Stacked complex terms of two levels, for one batch item and one channel: \<open>-1 - 2i\<close> at
  level 0 and \<open>3 - 4i\<close> at level 1.
\<close>

definition example_terms :: "(real \<times> real) tensor3" where
  "example_terms = \<lparr>dim0 = 2, dim1 = 1, dim2 = 1,
                     elem3 = (\<lambda>l _ _. if l = 0 then (- 1, - 2) else (3, - 4))\<rparr>"

section \<open>Sequencing\<close>

lemma and_then_simps [simp]:
  "and_then (Inl e) f = Inl e"
  "and_then (Inr v) f = f v"
  by (simp_all add: and_then_def)

lemma and_then_eq_Inl:
  "(and_then r f = Inl e) = (r = Inl e \<or> (\<exists>v. r = Inr v \<and> f v = Inl e))"
  by (cases r) auto

section \<open>The size check\<close>

text \<open>
  Nothing after the size check raises the size check's exception: the torch operations raise
  \<open>RuntimeError\<close> or \<open>TypeError\<close>, and a failure of the primitive is propagated as its own.
\<close>

lemma downsample_pair_no_ValueError: "downsample_pair x y \<noteq> Inl ValueError"
  by (auto simp: downsample_pair_def Let_def F_pad_def avg_pool2d_def)

lemma pyramid_loop_no_ValueError:
  "pyramid_loop prim dr kern k1 k2 its st \<noteq> Inl ValueError"
proof (induction its arbitrary: st)
  case Nil
  show ?case by simp
next
  case (Cons it its)
  obtain x y mcs sv where st: "st = (x, y, mcs, sv)" by (cases st) auto
  show ?case unfolding st using Cons.IH downsample_pair_no_ValueError[of x y]
    by (auto simp: and_then_eq_Inl split: sum.splits if_splits prod.splits)
qed

lemma combine_no_ValueError: "combine mcs sv ws \<noteq> Inl ValueError"
  by (auto simp: combine_def torch_stack_def and_then_eq_Inl
      split: option.splits list.splits if_splits)

lemma min_size_5: "min_size kern 5 = real_of_int ((int (dimW kern) - 1) * 16 + 1)"
  by (simp add: min_size_def)

lemma size_check_iff:
  "(priv_multi_scale_ssim prim x y dr kern ws k1 k2 = Inl ValueError) =
   (real (dimW x) < min_size kern (length ws) \<or> real (dimH x) < min_size kern (length ws))"
  using pyramid_loop_no_ValueError[of prim dr kern k1 k2 "[0..<length ws]" "(x, y, [], None)"]
    combine_no_ValueError
  by (auto simp: priv_multi_scale_ssim_def Let_def and_then_eq_Inl split: prod.splits)

text \<open>
  C3. With five scale weights the real engine raises the \<open>ValueError\<close> of its size check if
  and only if the width or the height of \<open>x\<close> is smaller than
  \<open>(kernel.size(-1) - 1) * 16 + 1\<close>. So an image one pixel short in one dimension fails, and an
  image that meets the bound in both passes the check, whatever happens afterwards.
\<close>

theorem size_check_five_levels:
  "length ws = 5 \<Longrightarrow>
   (priv_multi_scale_ssim prim x y dr kern ws k1 k2 = Inl ValueError) =
   (int (dimW x) < (int (dimW kern) - 1) * 16 + 1 \<or>
    int (dimH x) < (int (dimW kern) - 1) * 16 + 1)"
proof -
  assume l: "length ws = 5"
  have a: "\<And>n::nat. (real n < real_of_int ((int (dimW kern) - 1) * 16 + 1))
                     = (int n < (int (dimW kern) - 1) * 16 + 1)"
    by (metis of_int_of_nat_eq of_int_less_iff)
  show ?thesis
    unfolding size_check_iff l min_size_5 a ..
qed

text \<open>
  With the default weights and an 11x11 kernel the bound is 161: a 161x160 image fails, a
  161x161 image passes the check.
\<close>

theorem size_check_five_levels_witness:
  "length scale_weights_from_ms_ssim_paper = 5 \<and>
   priv_multi_scale_ssim example_ssim_per_channel
     (full 1 1 161 160 (1/2)) (full 1 1 161 160 (1/2)) 1
     (full 1 1 11 11 (1/121)) scale_weights_from_ms_ssim_paper (1/100) (3/100) = Inl ValueError \<and>
   priv_multi_scale_ssim example_ssim_per_channel
     (full 1 1 161 161 (1/2)) (full 1 1 161 161 (1/2)) 1
     (full 1 1 11 11 (1/121)) scale_weights_from_ms_ssim_paper (1/100) (3/100) \<noteq> Inl ValueError"
  using size_check_five_levels[of scale_weights_from_ms_ssim_paper example_ssim_per_channel
          "full 1 1 161 160 (1/2)" "full 1 1 161 160 (1/2)" 1 "full 1 1 11 11 (1/121)"
          "1/100" "3/100"]
        size_check_five_levels[of scale_weights_from_ms_ssim_paper example_ssim_per_channel
          "full 1 1 161 161 (1/2)" "full 1 1 161 161 (1/2)" 1 "full 1 1 11 11 (1/121)"
          "1/100" "3/100"]
  by (simp add: scale_weights_from_ms_ssim_paper_def full_def)

section \<open>One step down the pyramid\<close>

lemma padding_zero: "padding x = 0 \<Longrightarrow> even (dimH x) \<and> even (dimW x)"
  unfolding padding_def
  by (cases "even (dimH x)"; cases "even (dimW x)") (simp_all add: odd_iff_mod_2_eq_one)

lemma padding_nonzero: "padding x \<noteq> 0 \<Longrightarrow> padding x = 1 \<and> (odd (dimH x) \<or> odd (dimW x))"
  unfolding padding_def
  by (cases "even (dimH x)"; cases "even (dimW x)") (simp_all add: odd_iff_mod_2_eq_one)

lemma half_even: "even (n::nat) \<Longrightarrow> (n + 1) div 2 = n div 2"
  by (elim evenE) simp

text \<open>Whatever the padding, a dimension \<open>d\<close> comes out as \<open>\<lceil>d / 2\<rceil>\<close>.\<close>

lemma half_with_padding:
  "(dimH x + padding x) div 2 = (dimH x + 1) div 2"
  "(dimW x + padding x) div 2 = (dimW x + 1) div 2"
proof -
  show "(dimH x + padding x) div 2 = (dimH x + 1) div 2"
  proof (cases "padding x = 0")
    case True
    then show ?thesis using padding_zero[OF True] by (simp add: half_even)
  next
    case False
    then show ?thesis using padding_nonzero[OF False] by simp
  qed
  show "(dimW x + padding x) div 2 = (dimW x + 1) div 2"
  proof (cases "padding x = 0")
    case True
    then show ?thesis using padding_zero[OF True] by (simp add: half_even)
  next
    case False
    then show ?thesis using padding_nonzero[OF False] by simp
  qed
qed

lemma padded_even_iff:
  "(even (dimH x + padding x) \<and> even (dimW x + padding x)) = (even (dimH x) = even (dimW x))"
proof (cases "padding x = 0")
  case True
  then show ?thesis using padding_zero[OF True] by simp
next
  case False
  then show ?thesis using padding_nonzero[OF False] by auto
qed

lemma next_level_dims [simp]:
  "dimN (next_level p x) = dimN x"
  "dimC (next_level p x) = dimC x"
  "dimH (next_level p x) = (dimH x + p) div 2"
  "dimW (next_level p x) = (dimW x + p) div 2"
  by (simp_all add: next_level_def pool2_def pad_replicate_def)

lemma half_positive: "0 < (n::nat) \<Longrightarrow> 0 < (n + 1) div 2"
  by (cases n) simp_all

lemma F_pad_nonempty:
  "0 < dimH x \<Longrightarrow> 0 < dimW x \<Longrightarrow> F_pad x l r t b = Inr (pad_replicate l r t b x)"
  by (simp add: F_pad_def)

lemma avg_pool2d_next_level:
  "0 < (dimH x + p) div 2 \<Longrightarrow> 0 < (dimW x + p) div 2 \<Longrightarrow>
   avg_pool2d (pad_replicate p 0 p 0 x) = Inr (next_level p x)"
  by (simp add: avg_pool2d_def next_level_def pad_replicate_def)

lemma downsample_pair_eq:
  assumes "0 < dimH x" "0 < dimW x" "dimH y = dimH x" "dimW y = dimW x"
  shows "downsample_pair x y = Inr (next_level (padding x) x, next_level (padding x) y)"
proof -
  have h: "0 < (dimH x + padding x) div 2" "0 < (dimW x + padding x) div 2"
    using assms(1,2) half_positive unfolding half_with_padding by simp_all
  have h': "0 < (dimH y + padding x) div 2" "0 < (dimW y + padding x) div 2"
    using h assms(3,4) by simp_all
  have y: "0 < dimH y" "0 < dimW y"
    using assms by simp_all
  show ?thesis
    unfolding downsample_pair_def Let_def
    by (simp add: F_pad_nonempty[OF assms(1,2)] F_pad_nonempty[OF y]
        avg_pool2d_next_level[OF h] avg_pool2d_next_level[OF h'])
qed

text \<open>
  C2, as claimed, fails: the padding does not always make both dimensions even. A 3x4 image
  has padding \<open>max (3 mod 2) (4 mod 2) = 1\<close> and is padded to 4x5.
\<close>

theorem padded_width_odd:
  "padding (full 1 1 3 4 (0::real)) = 1
   \<and> dimH (pad_replicate (padding (full 1 1 3 4 (0::real))) 0
             (padding (full 1 1 3 4 (0::real))) 0 (full 1 1 3 4 (0::real))) = 4
   \<and> dimW (pad_replicate (padding (full 1 1 3 4 (0::real))) 0
             (padding (full 1 1 3 4 (0::real))) 0 (full 1 1 3 4 (0::real))) = 5
   \<and> \<not> even (dimW (pad_replicate (padding (full 1 1 3 4 (0::real))) 0
                  (padding (full 1 1 3 4 (0::real))) 0 (full 1 1 3 4 (0::real))))"
  by (simp add: pad_replicate_def padding_def full_def)

text \<open>
  C2, amended. For two images of one shape that are not empty, the step taken at every level
  after the first succeeds and does this: with \<open>p = max (H mod 2) (W mod 2)\<close> read from \<open>x\<close>, both
  images are padded by \<open>p\<close> replicated edge pixels on the top and on the left, to
  \<open>(H + p) x (W + p)\<close>; both padded dimensions are even exactly when \<open>H\<close> and \<open>W\<close> have the same
  parity; then both are pooled with a 2x2 mean of stride 2, to \<open>\<lceil>H / 2\<rceil> x \<lceil>W / 2\<rceil>\<close>.
\<close>

theorem downsample_step:
  assumes "0 < dimH x" "0 < dimW x" "dimH y = dimH x" "dimW y = dimW x"
  shows "downsample_pair x y =
           Inr (pool2 (pad_replicate (padding x) 0 (padding x) 0 x),
                pool2 (pad_replicate (padding x) 0 (padding x) 0 y))
       \<and> padding x = max (dimH x mod 2) (dimW x mod 2)
       \<and> dimH (pad_replicate (padding x) 0 (padding x) 0 x) = dimH x + padding x
       \<and> dimW (pad_replicate (padding x) 0 (padding x) 0 x) = dimW x + padding x
       \<and> elem (pad_replicate (padding x) 0 (padding x) 0 x) n c i j =
           elem x n c (if i < padding x then 0 else min (i - padding x) (dimH x - 1))
                      (if j < padding x then 0 else min (j - padding x) (dimW x - 1))
       \<and> ((even (dimH x + padding x) \<and> even (dimW x + padding x))
            = (even (dimH x) = even (dimW x)))
       \<and> dimH (pool2 (pad_replicate (padding x) 0 (padding x) 0 x)) = (dimH x + 1) div 2
       \<and> dimW (pool2 (pad_replicate (padding x) 0 (padding x) 0 x)) = (dimW x + 1) div 2
       \<and> elem (pool2 z) n c i j =
           (elem z n c (2 * i) (2 * j) + elem z n c (2 * i) (2 * j + 1)
            + elem z n c (2 * i + 1) (2 * j) + elem z n c (2 * i + 1) (2 * j + 1)) / 4"
proof -
  have a: "downsample_pair x y =
           Inr (pool2 (pad_replicate (padding x) 0 (padding x) 0 x),
                pool2 (pad_replicate (padding x) 0 (padding x) 0 y))"
    using downsample_pair_eq[OF assms] by (simp add: next_level_def)
  have b: "padding x = max (dimH x mod 2) (dimW x mod 2)"
    by (simp add: padding_def)
  have c: "dimH (pad_replicate (padding x) 0 (padding x) 0 x) = dimH x + padding x"
          "dimW (pad_replicate (padding x) 0 (padding x) 0 x) = dimW x + padding x"
    by (simp_all add: pad_replicate_def)
  have d: "elem (pad_replicate (padding x) 0 (padding x) 0 x) n c i j =
           elem x n c (if i < padding x then 0 else min (i - padding x) (dimH x - 1))
                      (if j < padding x then 0 else min (j - padding x) (dimW x - 1))"
    by (simp add: pad_replicate_def replicate_index_def)
  have e: "dimH (pool2 (pad_replicate (padding x) 0 (padding x) 0 x)) = (dimH x + 1) div 2"
          "dimW (pool2 (pad_replicate (padding x) 0 (padding x) 0 x)) = (dimW x + 1) div 2"
    using next_level_dims(3,4)[of "padding x" x] half_with_padding[of x]
    by (simp_all add: next_level_def)
  have f: "elem (pool2 z) n c i j =
           (elem z n c (2 * i) (2 * j) + elem z n c (2 * i) (2 * j + 1)
            + elem z n c (2 * i + 1) (2 * j) + elem z n c (2 * i + 1) (2 * j + 1)) / 4"
    by (simp add: pool2_def)
  show ?thesis
    using a b c d padded_even_iff[of x] e f by blast
qed

text \<open>
  A 3x4 image of one shape with its partner: padded to 4x5, pooled to 2x2; in the padded image
  the first row and the first column are copies of the edge, and the last column is lost in
  the pooling.
\<close>

theorem downsample_step_witness:
  "0 < dimH (full 1 1 3 4 (1/2::real)) \<and> 0 < dimW (full 1 1 3 4 (1/2::real))
   \<and> (downsample_pair (full 1 1 3 4 (1/2)) (full 1 1 3 4 (1/2)) :: unit error + _) =
       Inr (pool2 (pad_replicate 1 0 1 0 (full 1 1 3 4 (1/2))),
            pool2 (pad_replicate 1 0 1 0 (full 1 1 3 4 (1/2))))
   \<and> dimH (pool2 (pad_replicate 1 0 1 0 (full 1 1 3 4 (1/2::real)))) = 2
   \<and> dimW (pool2 (pad_replicate 1 0 1 0 (full 1 1 3 4 (1/2::real)))) = 2
   \<and> elem (pool2 (pad_replicate 1 0 1 0 (full 1 1 3 4 (1/2::real)))) 0 0 0 0 = 1/2"
  using downsample_step[where x = "full 1 1 3 4 (1/2)" and y = "full 1 1 3 4 (1/2)"
          and z = "pad_replicate 1 0 1 0 (full 1 1 3 4 (1/2))" and n = 0 and c = 0
          and i = 0 and j = 0]
  by (simp add: full_def padding_def pad_replicate_def)

section \<open>Reduction and loss\<close>

lemma reduce_none [simp]: "reduce ''none'' v = Inr v"
  by (simp add: reduce_def)

lemma reduce_none_fun [simp]: "reduce ''none'' = Inr"
  by (rule ext) simp

lemma reduce_mean [simp]: "reduce ''mean'' v = Inr (torch_mean v)"
  by (simp add: reduce_def)

lemma reduce_sum [simp]: "reduce ''sum'' v = Inr (torch_sum v)"
  by (simp add: reduce_def)

lemma reduce_other:
  "reduction \<noteq> ''none'' \<Longrightarrow> reduction \<noteq> ''mean'' \<Longrightarrow> reduction \<noteq> ''sum'' \<Longrightarrow>
   reduce reduction v = Inl (KeyError reduction)"
  by (simp add: reduce_def)

lemma and_then_Inr_id [simp]: "and_then r Inr = r"
  by (cases r) simp_all

text \<open>
  The reduction is the last thing the function does: a call is the call without reduction,
  followed by the reduction.
\<close>

lemma multi_scale_ssim_reduce:
  "multi_scale_ssim env x y ks sg dr reduction sw k1 k2 =
   and_then (multi_scale_ssim env x y ks sg dr ''none'' sw k1 k2) (reduce reduction)"
  by (cases "validate_input env x y True ks sw dr")
    (simp_all add: multi_scale_ssim_def Let_def)

lemma none_shape:
  assumes "multi_scale_ssim env x y ks sg dr ''none'' sw k1 k2 = Inr s"
  shows "(\<exists>v. s = Shape_N v) \<or> (\<exists>v. s = Shape_N2 v)"
  using assms
  by (auto simp: multi_scale_ssim_def Let_def and_then_def
      split: option.splits sum.splits prod.splits)

lemma upt_0_2: "[0..<2] = [0, Suc 0]"
  by (simp add: numeral_2_eq_2)

text \<open>The scores of the example batch against two images of ones, and against itself.\<close>

lemma example_scores:
  "multi_scale_ssim example_env (Inl example_batch) (Inl (full 2 1 1 1 1)) 1 (3/2) 1 ''none''
     (Some [1]) (1/100) (3/100) = Inr (Shape_N [1, 5/7])"
  by (simp add: multi_scale_ssim_def example_env_def Let_def div_scalar_def repeat_first_def
      box_kernel_def priv_multi_scale_ssim_def min_size_def example_ssim_per_channel_def
      combine_def torch_stack_def torch_relu_def pow_view_def prod_dim0_def mean_dim1_def
      float_pow_def relu_def example_batch_def full_def upt_0_2 power2_eq_square)


text \<open>
  C5. Where the call without reduction returns the scores \<open>v\<close> of the batch (real, or complex
  as pairs), the call with \<open>'sum'\<close> returns their sum and, for a batch that is not empty, the
  call with \<open>'mean'\<close> returns their arithmetic mean, component by component for complex
  scores. The call without reduction returns nothing but such a batch, and where it fails
  the other two fail alike.
\<close>

theorem reduction_mean_sum:
  "(\<forall>v. multi_scale_ssim env x y ks sg dr ''none'' sw k1 k2 = Inr (Shape_N v) \<longrightarrow>
        multi_scale_ssim env x y ks sg dr ''sum'' sw k1 k2 = Inr (Shape_scalar (sum_list v))
      \<and> (v \<noteq> [] \<longrightarrow> multi_scale_ssim env x y ks sg dr ''mean'' sw k1 k2
                        = Inr (Shape_scalar (sum_list v / real (length v)))))
 \<and> (\<forall>v. multi_scale_ssim env x y ks sg dr ''none'' sw k1 k2 = Inr (Shape_N2 v) \<longrightarrow>
        multi_scale_ssim env x y ks sg dr ''sum'' sw k1 k2
          = Inr (Shape_2 (sum_list (map fst v), sum_list (map snd v)))
      \<and> (v \<noteq> [] \<longrightarrow> multi_scale_ssim env x y ks sg dr ''mean'' sw k1 k2
                        = Inr (Shape_2 (sum_list (map fst v) / real (length v),
                                        sum_list (map snd v) / real (length v)))))
 \<and> (\<forall>s. multi_scale_ssim env x y ks sg dr ''none'' sw k1 k2 = Inr s \<longrightarrow>
        (\<exists>v. s = Shape_N v) \<or> (\<exists>v. s = Shape_N2 v))
 \<and> (\<forall>e. multi_scale_ssim env x y ks sg dr ''none'' sw k1 k2 = Inl e \<longrightarrow>
        multi_scale_ssim env x y ks sg dr ''sum'' sw k1 k2 = Inl e
      \<and> multi_scale_ssim env x y ks sg dr ''mean'' sw k1 k2 = Inl e)"
  using none_shape[of env x y ks sg dr sw k1 k2]
  by (simp add: multi_scale_ssim_reduce[of env x y ks sg dr "''sum''"]
      multi_scale_ssim_reduce[of env x y ks sg dr "''mean''"])

theorem reduction_mean_sum_witness:
  "multi_scale_ssim example_env (Inl example_batch) (Inl (full 2 1 1 1 1)) 1 (3/2) 1 ''none''
     (Some [1]) (1/100) (3/100) = Inr (Shape_N [1, 5/7])
   \<and> multi_scale_ssim example_env (Inl example_batch) (Inl (full 2 1 1 1 1)) 1 (3/2) 1 ''sum''
     (Some [1]) (1/100) (3/100) = Inr (Shape_scalar (12/7))
   \<and> multi_scale_ssim example_env (Inl example_batch) (Inl (full 2 1 1 1 1)) 1 (3/2) 1 ''mean''
     (Some [1]) (1/100) (3/100) = Inr (Shape_scalar (6/7))"
  using example_scores
        reduction_mean_sum[of example_env "Inl example_batch" "Inl (full 2 1 1 1 1)" 1 "3/2" 1
          "Some [1]" "1/100" "3/100"]
  by simp

text \<open>
  C8, as claimed, fails: with the reduction \<open>'max'\<close> the call on the example batch ends in the
  \<open>KeyError\<close> of the dictionary lookup, not in the \<open>ValueError\<close> of an invalid input.
\<close>

theorem unknown_reduction_is_key_error:
  "multi_scale_ssim example_env (Inl example_batch) (Inl (full 2 1 1 1 1)) 1 (3/2) 1 ''max''
     (Some [1]) (1/100) (3/100) = Inl (KeyError ''max'')
   \<and> multi_scale_ssim example_env (Inl example_batch) (Inl (full 2 1 1 1 1)) 1 (3/2) 1 ''max''
     (Some [1]) (1/100) (3/100) \<noteq> Inl ValueError"
  by (simp only: multi_scale_ssim_reduce[of _ _ _ _ _ _ "''max''"] example_scores)
    (simp add: reduce_def)

text \<open>
  C8, amended. With a reduction other than \<open>'none'\<close>, \<open>'mean'\<close> and \<open>'sum'\<close> the function fails
  with the \<open>KeyError\<close> of the lookup, for that key, wherever the call without reduction
  returns; and where the call without reduction fails, it fails with the same exception.
\<close>

theorem unknown_reduction:
  "reduction \<noteq> ''none'' \<Longrightarrow> reduction \<noteq> ''mean'' \<Longrightarrow> reduction \<noteq> ''sum'' \<Longrightarrow>
   (\<forall>s. multi_scale_ssim env x y ks sg dr ''none'' sw k1 k2 = Inr s \<longrightarrow>
        multi_scale_ssim env x y ks sg dr reduction sw k1 k2 = Inl (KeyError reduction))
 \<and> (\<forall>e. multi_scale_ssim env x y ks sg dr ''none'' sw k1 k2 = Inl e \<longrightarrow>
        multi_scale_ssim env x y ks sg dr reduction sw k1 k2 = Inl e)"
  by (simp add: multi_scale_ssim_reduce[of env x y ks sg dr reduction] reduce_other)

text \<open>
  The reduction \<open>'median'\<close>: a \<open>KeyError\<close> on the example batch, and the validator's own failure
  for an even kernel size.
\<close>

theorem unknown_reduction_witness:
  "''median'' \<noteq> ''none'' \<and> ''median'' \<noteq> ''mean'' \<and> ''median'' \<noteq> ''sum''
   \<and> multi_scale_ssim example_env (Inl example_batch) (Inl (full 2 1 1 1 1)) 1 (3/2) 1
       ''median'' (Some [1]) (1/100) (3/100) = Inl (KeyError ''median'')
   \<and> multi_scale_ssim example_env (Inl example_batch) (Inl (full 2 1 1 1 1)) 2 (3/2) 1
       ''median'' (Some [1]) (1/100) (3/100) = Inl (Collaborator ''kernel size must be odd'')"
proof -
  have even_size:
    "multi_scale_ssim example_env (Inl example_batch) (Inl (full 2 1 1 1 1)) 2 (3/2) 1
       ''none'' (Some [1]) (1/100) (3/100) = Inl (Collaborator ''kernel size must be odd'')"
    by (simp add: multi_scale_ssim_def example_env_def)
  show ?thesis
    using example_scores even_size
          unknown_reduction[of "''median''" example_env "Inl example_batch"
            "Inl (full 2 1 1 1 1)" 1 "3/2" 1 "Some [1]" "1/100" "3/100"]
          unknown_reduction[of "''median''" example_env "Inl example_batch"
            "Inl (full 2 1 1 1 1)" 2 "3/2" 1 "Some [1]" "1/100" "3/100"]
    by simp
qed



section \<open>The real engine in closed form\<close>

text \<open>
  The images of every level are not empty and keep the batch and the channels, so the step
  down never fails, and iteration \<open>l\<close> of the loop calls the primitive on \<open>pyramid_level l\<close>.
\<close>

lemma pyramid_level_dims:
  assumes "0 < dimH x" "0 < dimW x" "dimH y = dimH x" "dimW y = dimW x"
  shows "0 < dimH (fst (pyramid_level l (x, y))) \<and> 0 < dimW (fst (pyramid_level l (x, y)))
       \<and> dimH (snd (pyramid_level l (x, y))) = dimH (fst (pyramid_level l (x, y)))
       \<and> dimW (snd (pyramid_level l (x, y))) = dimW (fst (pyramid_level l (x, y)))"
proof (induction l)
  case 0
  show ?case using assms by simp
next
  case (Suc l)
  then show ?case
    by (simp add: Let_def half_with_padding half_positive)
qed


lemma pyramid_loop_run:
  assumes dims: "0 < dimH x" "0 < dimW x" "dimH y = dimH x" "dimW y = dimW x"
    and prim: "\<And>l. l < L \<Longrightarrow>
      prim (fst (pyramid_level l (x, y))) (snd (pyramid_level l (x, y))) kern dr k1 k2
        = Inr (ssim_at l, cs_at l)"
  shows "k \<le> L \<Longrightarrow>
     pyramid_loop prim dr kern k1 k2 [k..<L]
       (fst (pyramid_level (k - 1) (x, y)), snd (pyramid_level (k - 1) (x, y)), mcs, sv) =
     Inr (fst (pyramid_level (L - 1) (x, y)), snd (pyramid_level (L - 1) (x, y)),
          mcs @ map cs_at [k..<L], if k < L then Some (ssim_at (L - 1)) else sv)"
proof (induction "L - k" arbitrary: k mcs sv)
  case 0
  then have "k = L" by simp
  then show ?case by simp
next
  case (Suc d)
  then have kL: "k < L" and d: "d = L - Suc k" and le: "Suc k \<le> L" by simp_all
  have upt: "[k..<L] = k # [Suc k..<L]"
    using kL by (simp add: upt_conv_Cons)
  let ?xk = "fst (pyramid_level k (x, y))" and ?yk = "snd (pyramid_level k (x, y))"
  have step: "(if k > 0
               then downsample_pair (fst (pyramid_level (k - 1) (x, y)))
                      (snd (pyramid_level (k - 1) (x, y)))
               else Inr (fst (pyramid_level (k - 1) (x, y)), snd (pyramid_level (k - 1) (x, y))))
              = (Inr (?xk, ?yk) :: 'a error + _)"
  proof (cases k)
    case 0
    then show ?thesis by simp
  next
    case (Suc j)
    have "downsample_pair (fst (pyramid_level j (x, y))) (snd (pyramid_level j (x, y)))
          = (Inr (fst (pyramid_level (Suc j) (x, y)), snd (pyramid_level (Suc j) (x, y)))
              :: 'a error + _)"
      using pyramid_level_dims[OF dims, of j]
      by (simp add: downsample_pair_eq Let_def)
    then show ?thesis using Suc by simp
  qed
  have ih: "pyramid_loop prim dr kern k1 k2 [Suc k..<L]
       (?xk, ?yk, mcs @ [cs_at k], Some (ssim_at k)) =
     Inr (fst (pyramid_level (L - 1) (x, y)), snd (pyramid_level (L - 1) (x, y)),
          (mcs @ [cs_at k]) @ map cs_at [Suc k..<L],
          if Suc k < L then Some (ssim_at (L - 1)) else Some (ssim_at k))"
    using Suc.hyps(1)[OF d le, of "mcs @ [cs_at k]" "Some (ssim_at k)"] by simp
  have last: "(if Suc k < L then Some (ssim_at (L - 1)) else Some (ssim_at k)) = Some (ssim_at (L - 1))"
  proof (cases "Suc k < L")
    case True
    then show ?thesis by simp
  next
    case False
    then have "k = L - 1" using kL by linarith
    then show ?thesis using False by simp
  qed
  show ?case
    unfolding upt pyramid_loop.simps step
    by (simp add: prim[OF kL] ih last kL case_prod_beta del: upt_Suc)
qed


lemma torch_stack_uniform:
  assumes "ts \<noteq> []" "\<And>u. u \<in> set ts \<Longrightarrow> rows u = N \<and> cols u = C"
  shows "torch_stack ts = Inr \<lparr>dim0 = length ts, dim1 = N, dim2 = C,
                               elem3 = (\<lambda>l n c. elem2 (ts ! l) n c)\<rparr>"
proof (cases ts)
  case Nil
  then show ?thesis using assms(1) by simp
next
  case (Cons t rest)
  then have t: "rows t = N" "cols t = C" using assms(2)[of t] by simp_all
  have "list_all (\<lambda>u. rows u = rows t \<and> cols u = cols t) ts"
    using assms(2) t by (simp add: list_all_iff)
  then show ?thesis
    unfolding torch_stack_def using Cons t by simp
qed

lemma terms_list:
  assumes "0 < L"
  shows "butlast (map cs_at [0..<L]) @ [ssim_at (L - 1)]
         = map (\<lambda>l. if l < L - 1 then cs_at l else ssim_at l) [0..<L]"
proof -
  obtain m where L: "L = Suc m" using assms by (cases L) auto
  show ?thesis unfolding L by (simp add: butlast_append)
qed

lemma combine_levels:
  assumes "0 < length ws"
    and shapes: "\<And>l. l < length ws \<Longrightarrow>
       rows (ssim_at l) = N \<and> cols (ssim_at l) = C \<and> rows (cs_at l) = N \<and> cols (cs_at l) = C"
  shows "combine (map cs_at [0..<length ws]) (Some (ssim_at (length ws - 1))) ws
         = Inr (msssim_spec N C ssim_at cs_at ws)"
proof -
  let ?L = "length ws"
  let ?ts = "map (\<lambda>l. if l < ?L - 1 then cs_at l else ssim_at l) [0..<?L]"
  have ne: "?ts \<noteq> []" using assms(1) by simp
  have uni: "\<And>u. u \<in> set ?ts \<Longrightarrow> rows u = N \<and> cols u = C"
    using shapes by auto
  have nth: "\<And>l. l < ?L \<Longrightarrow> ?ts ! l = (if l < ?L - 1 then cs_at l else ssim_at l)"
    by simp
  have inner: "\<And>n c. map (\<lambda>l. float_pow (max 0 (elem2 (?ts ! l) n c)) (ws ! l)) [0..<?L]
      = map (\<lambda>l. float_pow (max 0 (level_term ?L ssim_at cs_at l n c)) (ws ! l)) [0..<?L]"
    by (simp add: level_term_def)
  have "mean_dim1 (prod_dim0 (pow_view (torch_relu
           \<lparr>dim0 = length ?ts, dim1 = N, dim2 = C, elem3 = (\<lambda>l n c. elem2 (?ts ! l) n c)\<rparr>) ws))
        = msssim_spec N C ssim_at cs_at ws"
    unfolding mean_dim1_def prod_dim0_def pow_view_def torch_relu_def msssim_spec_def relu_def
    by (simp only: tensor3.simps tensor2.simps length_map length_upt diff_zero inner)
  then show ?thesis
    by (simp only: combine_def option.case terms_list[OF assms(1)]
        torch_stack_uniform[OF ne uni] and_then_simps)
qed


lemma level_outputs_iff:
  "level_outputs prim x y dr kern L k1 k2 ssim_at cs_at =
   (\<forall>l<L. prim (fst (pyramid_level l (x, y))) (snd (pyramid_level l (x, y))) kern dr k1 k2
              = Inr (ssim_at l, cs_at l)
          \<and> rows (ssim_at l) = dimN x \<and> cols (ssim_at l) = dimC x
          \<and> rows (cs_at l) = dimN x \<and> cols (cs_at l) = dimC x)"
  by (auto simp: level_outputs_def list_all_iff)

lemma real_engine_run:
  assumes valid: "valid_inputs ws x y"
    and size: "min_size kern (length ws) \<le> real (dimW x)"
              "min_size kern (length ws) \<le> real (dimH x)"
    and outs: "level_outputs prim x y dr kern (length ws) k1 k2 ssim_at cs_at"
  shows "priv_multi_scale_ssim prim x y dr kern ws k1 k2
         = Inr (msssim_spec (dimN x) (dimC x) ssim_at cs_at ws)"
proof -
  have dims: "0 < dimH x" "0 < dimW x" "dimH y = dimH x" "dimW y = dimW x"
    and L: "0 < length ws"
    using valid by (simp_all add: valid_inputs_def)
  have prim: "\<And>l. l < length ws \<Longrightarrow>
      prim (fst (pyramid_level l (x, y))) (snd (pyramid_level l (x, y))) kern dr k1 k2
        = Inr (ssim_at l, cs_at l)"
    using outs by (simp add: level_outputs_iff)
  have shapes: "\<And>l. l < length ws \<Longrightarrow>
       rows (ssim_at l) = dimN x \<and> cols (ssim_at l) = dimC x
       \<and> rows (cs_at l) = dimN x \<and> cols (cs_at l) = dimC x"
    using outs by (simp add: level_outputs_iff)
  have loop: "pyramid_loop prim dr kern k1 k2 [0..<length ws] (x, y, [], None) =
     Inr (fst (pyramid_level (length ws - 1) (x, y)), snd (pyramid_level (length ws - 1) (x, y)),
          map cs_at [0..<length ws], Some (ssim_at (length ws - 1)))"
    using pyramid_loop_run[where x = x and y = y and L = "length ws" and prim = prim
            and kern = kern and dr = dr and ?k1.0 = k1 and ?k2.0 = k2
            and ssim_at = ssim_at and cs_at = cs_at and k = 0 and mcs = "[]" and sv = None,
            OF dims prim]
          L
    by simp
  show ?thesis
    unfolding priv_multi_scale_ssim_def Let_def loop
    using size combine_levels[OF L shapes] by simp
qed

text \<open>
  C1. For valid inputs that pass the size check, with an SSIM primitive that returns at level
  \<open>l\<close> the SSIM values \<open>ssim_at l\<close> and the contrast terms \<open>cs_at l\<close> of shape \<open>(N, C)\<close>, the real
  engine returns the combination of the specification: the contrast terms of the levels
  \<open>0 .. levels - 2\<close> and the SSIM value of level \<open>levels - 1\<close>, each clamped at zero and raised to
  the weight of its level, multiplied over the levels and averaged over the channels; one
  score per batch item.
\<close>

theorem real_path_combination:
  assumes "valid_inputs ws x y"
    and "min_size kern (length ws) \<le> real (dimW x)"
    and "min_size kern (length ws) \<le> real (dimH x)"
    and "level_outputs prim x y dr kern (length ws) k1 k2 ssim_at cs_at"
  shows "priv_multi_scale_ssim prim x y dr kern ws k1 k2
           = Inr (msssim_spec (dimN x) (dimC x) ssim_at cs_at ws)
       \<and> length (msssim_spec (dimN x) (dimC x) ssim_at cs_at ws) = dimN x"
  using real_engine_run[OF assms] by (simp add: msssim_spec_def)

text \<open>
  Two levels with the weights 1 and 2, a 2x2 kernel and 3x3 images of ones and of twos: the
  stand-in primitive returns the contrast term \<open>5/6\<close> and the SSIM value \<open>5/7\<close> at both levels,
  and the score is \<open>5/6 * (5/7)\<^sup>2 = 125/294\<close>.
\<close>

lemma example_valid:
  "valid_inputs [1, 2] (full 1 1 3 3 (1::real)) (full 1 1 3 3 (v::real))"
  by (simp add: valid_inputs_def full_def)

lemma example_min_size: "min_size (full 1 1 2 2 (1/4)) (length [1, 2 :: real]) = 3"
  by (simp add: min_size_def full_def)

lemma example_size:
  "min_size (full 1 1 2 2 (1/4)) (length [1, 2 :: real]) \<le> real (dimW (full 1 1 3 3 (1::real)))"
  "min_size (full 1 1 2 2 (1/4)) (length [1, 2 :: real]) \<le> real (dimH (full 1 1 3 3 (1::real)))"
  unfolding example_min_size by (simp_all add: full_def)

lemma example_dims:
  "dimN (full 1 1 3 3 (1::real)) = 1" "dimC (full 1 1 3 3 (1::real)) = 1"
  by (simp_all add: full_def)

lemma example_level_outputs:
  "level_outputs example_ssim_per_channel (full 1 1 3 3 1) (full 1 1 3 3 2) 1
     (full 1 1 2 2 (1/4)) (length [1, 2 :: real]) (1/100) (3/100)
     (\<lambda>_. constant_output (5/7)) (\<lambda>_. constant_output (5/6))"
  by (simp add: level_outputs_def upt_0_2 Let_def example_ssim_per_channel_def full_def
      next_level_def pool2_def pad_replicate_def padding_def replicate_index_def
      constant_output_def power2_eq_square)

lemma example_spec_value:
  "msssim_spec 1 1 (\<lambda>_. constant_output (5/7)) (\<lambda>_. constant_output (5/6)) [1, 2] = [125/294]"
  by (simp add: msssim_spec_def level_term_def constant_output_def float_pow_def upt_0_2
      power2_eq_square)

theorem real_path_combination_witness:
  "valid_inputs [1, 2] (full 1 1 3 3 (1::real)) (full 1 1 3 3 (2::real))
   \<and> min_size (full 1 1 2 2 (1/4)) (length [1, 2 :: real]) \<le> real (dimW (full 1 1 3 3 (1::real)))
   \<and> min_size (full 1 1 2 2 (1/4)) (length [1, 2 :: real]) \<le> real (dimH (full 1 1 3 3 (1::real)))
   \<and> level_outputs example_ssim_per_channel (full 1 1 3 3 1) (full 1 1 3 3 2) 1
       (full 1 1 2 2 (1/4)) (length [1, 2 :: real]) (1/100) (3/100)
       (\<lambda>_. constant_output (5/7)) (\<lambda>_. constant_output (5/6))
   \<and> priv_multi_scale_ssim example_ssim_per_channel (full 1 1 3 3 1) (full 1 1 3 3 2) 1
       (full 1 1 2 2 (1/4)) [1, 2] (1/100) (3/100) = Inr [125/294]"
  using real_path_combination[OF example_valid example_size example_level_outputs]
    example_valid[of 2] example_size example_level_outputs
  unfolding example_dims example_spec_value by blast

section \<open>The score is not negative\<close>

lemma float_pow_nonneg: "0 \<le> float_pow b w"
  by (simp add: float_pow_def)

lemma prod_list_nonneg_real: "(\<And>v. v \<in> set vs \<Longrightarrow> 0 \<le> v) \<Longrightarrow> 0 \<le> prod_list (vs :: real list)"
  by (induction vs) simp_all

lemma level_product_nonneg:
  "0 \<le> (\<Prod>l\<leftarrow>ls. float_pow (f l) (g l))"
  by (rule prod_list_nonneg_real) (auto simp: float_pow_nonneg)

lemma channel_mean_nonneg:
  "0 \<le> (\<Sum>c\<leftarrow>cs. \<Prod>l\<leftarrow>ls. float_pow (f l c) (g l)) / real C"
proof -
  have "0 \<le> (\<Sum>c\<leftarrow>cs. \<Prod>l\<leftarrow>ls. float_pow (f l c) (g l))"
    by (rule sum_list_nonneg) (auto simp: level_product_nonneg)
  then show ?thesis by simp
qed

lemma msssim_spec_nonneg: "list_all (\<lambda>s. 0 \<le> s) (msssim_spec N C ssim_at cs_at ws)"
  unfolding msssim_spec_def list_all_iff
  by (simp add: channel_mean_nonneg)

lemma msssim_spec_length: "length (msssim_spec N C ssim_at cs_at ws) = N"
  by (simp add: msssim_spec_def)

text \<open>
  C7. For valid inputs that pass the size check, with positive scale weights and an SSIM
  primitive that returns its \<open>(N, C)\<close> results at every level, the real engine returns one
  score per batch item and none of them is negative: every factor is a clamped base raised
  to its weight, and the product over the levels and the mean over the channels keep the
  sign.
\<close>

theorem real_path_score_nonneg:
  assumes "valid_inputs ws x y"
    and "min_size kern (length ws) \<le> real (dimW x)"
    and "min_size kern (length ws) \<le> real (dimH x)"
    and "level_outputs prim x y dr kern (length ws) k1 k2 ssim_at cs_at"
    and "list_all (\<lambda>w. 0 < w) ws"
  shows "\<exists>v. priv_multi_scale_ssim prim x y dr kern ws k1 k2 = Inr v
            \<and> length v = dimN x \<and> list_all (\<lambda>s. 0 \<le> s) v"
  using real_engine_run[OF assms(1-4)] msssim_spec_nonneg msssim_spec_length
  by blast

text \<open>
  Images of ones against images of \<open>-2\<close>: the stand-in primitive returns the contrast term
  \<open>-1/2\<close> and the SSIM value \<open>1/7\<close>; the contrast term of level 0 is clamped to 0 and the score
  is 0.
\<close>

lemma example_level_outputs_negative:
  "level_outputs example_ssim_per_channel (full 1 1 3 3 1) (full 1 1 3 3 (- 2)) 1
     (full 1 1 2 2 (1/4)) (length [1, 2 :: real]) (1/100) (3/100)
     (\<lambda>_. constant_output (1/7)) (\<lambda>_. constant_output (- (1/2)))"
  by (simp add: level_outputs_def upt_0_2 Let_def example_ssim_per_channel_def full_def
      next_level_def pool2_def pad_replicate_def padding_def replicate_index_def
      constant_output_def power2_eq_square)

lemma example_spec_value_negative:
  "msssim_spec 1 1 (\<lambda>_. constant_output (1/7)) (\<lambda>_. constant_output (- (1/2))) [1, 2] = [0]"
  by (simp add: msssim_spec_def level_term_def constant_output_def float_pow_def upt_0_2)

lemma example_score_negative:
  "priv_multi_scale_ssim example_ssim_per_channel (full 1 1 3 3 1) (full 1 1 3 3 (- 2)) 1
     (full 1 1 2 2 (1/4)) [1, 2] (1/100) (3/100) = Inr [0]"
  using real_engine_run[OF example_valid example_size example_level_outputs_negative]
  unfolding example_dims example_spec_value_negative .

theorem real_path_score_nonneg_witness:
  "valid_inputs [1, 2] (full 1 1 3 3 (1::real)) (full 1 1 3 3 (- 2 :: real))
   \<and> min_size (full 1 1 2 2 (1/4)) (length [1, 2 :: real]) \<le> real (dimW (full 1 1 3 3 (1::real)))
   \<and> min_size (full 1 1 2 2 (1/4)) (length [1, 2 :: real]) \<le> real (dimH (full 1 1 3 3 (1::real)))
   \<and> level_outputs example_ssim_per_channel (full 1 1 3 3 1) (full 1 1 3 3 (- 2)) 1
       (full 1 1 2 2 (1/4)) (length [1, 2 :: real]) (1/100) (3/100)
       (\<lambda>_. constant_output (1/7)) (\<lambda>_. constant_output (- (1/2)))
   \<and> list_all (\<lambda>w. 0 < w) [1, 2 :: real]
   \<and> priv_multi_scale_ssim example_ssim_per_channel (full 1 1 3 3 1) (full 1 1 3 3 (- 2)) 1
       (full 1 1 2 2 (1/4)) [1, 2] (1/100) (3/100) = Inr [0]
   \<and> (\<exists>v. priv_multi_scale_ssim example_ssim_per_channel (full 1 1 3 3 1) (full 1 1 3 3 (- 2)) 1
             (full 1 1 2 2 (1/4)) [1, 2] (1/100) (3/100) = Inr v
           \<and> length v = dimN (full 1 1 3 3 (1::real)) \<and> list_all (\<lambda>s. 0 \<le> s) v)"
proof -
  have pos: "list_all (\<lambda>w. 0 < w) [1, 2 :: real]"
    by simp
  show ?thesis
    using real_path_score_nonneg[OF example_valid example_size example_level_outputs_negative pos]
      example_valid[of "- 2"] example_size example_level_outputs_negative pos
      example_score_negative
    by blast
qed

section \<open>The clamp of the complex engine\<close>

lemma relu_nonneg [simp]: "0 \<le> relu v"
  by (simp add: relu_def)

lemma relu_negative: "v < 0 \<Longrightarrow> relu v = 0"
  by (simp add: relu_def)

lemma torch_atan2_quadrant:
  assumes "0 \<le> re" "0 \<le> im"
  shows "0 \<le> torch_atan2 im re \<and> torch_atan2 im re \<le> pi / 2"
proof (cases "0 < re")
  case True
  then have "0 \<le> im / re" using assms by simp
  then have "0 \<le> arctan (im / re)" by (simp add: zero_le_arctan_iff)
  moreover have "arctan (im / re) < pi / 2" by (rule arctan_ubound)
  ultimately show ?thesis using True by (simp add: torch_atan2_def)
next
  case False
  then have "re = 0" using assms by simp
  then show ?thesis using assms by (simp add: torch_atan2_def)
qed

lemma prod_list_has_zero:
  "(0::real) \<in> set vs \<Longrightarrow> prod_list vs = 0"
  by (induction vs) auto

lemma level_product_zero:
  assumes "l < L" "f l = (0::real)"
  shows "prod_list (map f [0..<L]) = 0"
  by (rule prod_list_has_zero) (use assms in force)

text \<open>
  C10. In the complex engine the clamp rectifies the real and the imaginary part of every
  stacked term (the contrast terms and the final SSIM value alike) each on its own, before
  magnitude and phase are taken. So every phase lies between 0 and \<open>pi / 2\<close>; a term with
  negative real and negative imaginary part has magnitude 0, and with a positive weight at
  its level the product of the powered magnitudes over the levels is 0 for its batch item
  and channel.
\<close>

theorem complex_clamp_per_component:
  "elem3 (torch_relu_complex t) l n c
     = (max 0 (fst (elem3 t l n c)), max 0 (snd (elem3 t l n c)))
 \<and> 0 \<le> elem3 (mcs_ssim_deg (torch_relu_complex t)) l n c
 \<and> elem3 (mcs_ssim_deg (torch_relu_complex t)) l n c \<le> pi / 2
 \<and> (fst (elem3 t l n c) < 0 \<and> snd (elem3 t l n c) < 0 \<longrightarrow>
       elem3 (mcs_ssim_abs (torch_relu_complex t)) l n c = 0)
 \<and> (l < dim0 t \<and> 0 < ws ! l \<and> fst (elem3 t l n c) < 0 \<and> snd (elem3 t l n c) < 0 \<longrightarrow>
       elem2 (msssim_val_abs (torch_relu_complex t) ws) n c = 0)
 \<and> (torch_stack (butlast mcs @ [sv]) = (Inr t :: 'e error + (real \<times> real) tensor3) \<longrightarrow>
       (combine_complex mcs (Some sv) ws :: 'e error + (real \<times> real) list)
         = Inr (polar_mean (msssim_val_abs (torch_relu_complex t) ws)
                           (msssim_val_deg (torch_relu_complex t) ws)))"
proof -
  have a: "elem3 (torch_relu_complex t) l n c
     = (max 0 (fst (elem3 t l n c)), max 0 (snd (elem3 t l n c)))"
    by (simp add: torch_relu_complex_def relu_def)
  have b: "0 \<le> elem3 (mcs_ssim_deg (torch_relu_complex t)) l n c
         \<and> elem3 (mcs_ssim_deg (torch_relu_complex t)) l n c \<le> pi / 2"
    using torch_atan2_quadrant[of "relu (fst (elem3 t l n c))" "relu (snd (elem3 t l n c))"]
    by (simp add: mcs_ssim_deg_def torch_relu_complex_def)
  have c: "elem3 (mcs_ssim_abs (torch_relu_complex t)) l n c = 0"
    if "fst (elem3 t l n c) < 0 \<and> snd (elem3 t l n c) < 0"
    using that by (simp add: mcs_ssim_abs_def torch_relu_complex_def relu_negative)
  have d: "elem2 (msssim_val_abs (torch_relu_complex t) ws) n c = 0"
    if h: "l < dim0 t \<and> 0 < ws ! l \<and> fst (elem3 t l n c) < 0 \<and> snd (elem3 t l n c) < 0"
  proof -
    have "float_pow (elem3 (mcs_ssim_abs (torch_relu_complex t)) l n c) (ws ! l) = 0"
      using c h by (simp add: float_pow_def)
    then have "prod_list (map (\<lambda>l. float_pow (elem3 (mcs_ssim_abs (torch_relu_complex t)) l n c)
                                  (ws ! l)) [0..<dim0 t]) = 0"
      using h by (intro level_product_zero[of l]) simp_all
    then show ?thesis
      by (simp add: msssim_val_abs_def prod_dim0_def pow_view_def mcs_ssim_abs_def
          torch_relu_complex_def)
  qed
  have e: "(combine_complex mcs (Some sv) ws :: 'e error + (real \<times> real) list)
         = Inr (polar_mean (msssim_val_abs (torch_relu_complex t) ws)
                           (msssim_val_deg (torch_relu_complex t) ws))"
    if "torch_stack (butlast mcs @ [sv]) = (Inr t :: 'e error + (real \<times> real) tensor3)"
    using that by (simp add: combine_complex_def Let_def)
  show ?thesis using a b c d e by blast
qed


text \<open>
  The term \<open>-1 - 2i\<close> is clamped to 0 and takes the product with it; \<open>3 - 4i\<close> is clamped to 3,
  with phase 0.
\<close>

theorem complex_clamp_per_component_witness:
  "elem3 (torch_relu_complex example_terms) 0 0 0 = (0, 0)
   \<and> elem3 (torch_relu_complex example_terms) 1 0 0 = (3, 0)
   \<and> elem3 (mcs_ssim_deg (torch_relu_complex example_terms)) 1 0 0 = 0
   \<and> (0::nat) < dim0 example_terms \<and> (0::real) < [1, 1] ! 0
   \<and> fst (elem3 example_terms 0 0 0) < 0 \<and> snd (elem3 example_terms 0 0 0) < 0
   \<and> elem3 (mcs_ssim_abs (torch_relu_complex example_terms)) 0 0 0 = 0
   \<and> elem2 (msssim_val_abs (torch_relu_complex example_terms) [1, 1]) 0 0 = 0"
proof -
  have h: "(0::nat) < dim0 example_terms \<and> (0::real) < [1, 1] ! 0
     \<and> fst (elem3 example_terms 0 0 0) < 0 \<and> snd (elem3 example_terms 0 0 0) < 0"
    by (simp add: example_terms_def)
  have v: "elem3 (torch_relu_complex example_terms) 0 0 0 = (0, 0)"
      "elem3 (torch_relu_complex example_terms) 1 0 0 = (3, 0)"
      "elem3 (mcs_ssim_deg (torch_relu_complex example_terms)) 1 0 0 = 0"
    by (simp_all add: example_terms_def torch_relu_complex_def relu_def mcs_ssim_deg_def
        torch_atan2_def)
  show ?thesis
    using complex_clamp_per_component[of example_terms 0 0 0 "[1, 1]"] h v by blast
qed

section \<open>Identical inputs\<close>














lemma div_scalar_dims [simp]:
  "dimN (div_scalar x d) = dimN x" "dimC (div_scalar x d) = dimC x"
  "dimH (div_scalar x d) = dimH x" "dimW (div_scalar x d) = dimW x"
  by (simp_all add: div_scalar_def)











section \<open>Complex inputs without imaginary part\<close>

text \<open>
  The two loops run in step: padding and pooling keep a zero imaginary part zero, and the
  complex primitive returns the real primitive's values. In the combination the magnitude of
  a clamped term \<open>(a, 0)\<close> is \<open>a\<close> and its phase is 0.
\<close>

lemma to_complex_dims [simp]:
  "dimN (to_complex x) = dimN x" "dimC (to_complex x) = dimC x"
  "dimH (to_complex x) = dimH x" "dimW (to_complex x) = dimW x"
  by (simp_all add: to_complex_def)

lemma zeros_like_dims [simp]:
  "dimN (zeros_like x) = dimN x" "dimC (zeros_like x) = dimC x"
  "dimH (zeros_like x) = dimH x" "dimW (zeros_like x) = dimW x"
  by (simp_all add: zeros_like_def)

lemma select_real [simp]: "select_last 0 (to_complex x) = x"
  by (simp add: select_last_def to_complex_def)

lemma select_imag [simp]: "k \<noteq> 0 \<Longrightarrow> select_last k (to_complex x) = zeros_like x"
  by (simp add: select_last_def to_complex_def zeros_like_def)

lemma padding_to_complex [simp]: "padding (to_complex x) = padding x"
  by (simp add: padding_def)

lemma next_level_zeros: "pool2 (pad_replicate p 0 p 0 (zeros_like x)) = zeros_like (next_level p x)"
  by (simp add: pool2_def pad_replicate_def zeros_like_def next_level_def)




lemma F_pad_error: "F_pad x l r t b = Inl e \<Longrightarrow> e = RuntimeError"
  by (simp add: F_pad_def split: if_splits)

lemma avg_pool2d_error: "avg_pool2d x = Inl e \<Longrightarrow> e = RuntimeError"
  by (simp add: avg_pool2d_def split: if_splits)





lemma to_complex2_dims [simp]:
  "rows (to_complex2 t) = rows t" "cols (to_complex2 t) = cols t"
  by (simp_all add: to_complex2_def)














end
